theory Spec2Isabelle
  imports Complex_Main
begin

section \<open>JavaScript values used by the order form\<close>

text \<open>
  A JavaScript string is a sequence of UTF-16 code units; a code unit is held in a
  \<^typ>\<open>nat\<close>. \<open>js\<close> turns an ASCII literal into such a string. Object keys
  (\<open>realName\<close>, \<open>phone\<close>, ...) are ASCII identifiers and stay Isabelle strings.
\<close>

type_synonym jsstring = "nat list"

definition js :: "string \<Rightarrow> jsstring" where
  "js s = map of_char s"

text \<open>\<open>\d\<close> of a JavaScript regular expression: the ten ASCII digits.\<close>

definition isDigit :: "nat \<Rightarrow> bool" where
  "isDigit c = (48 \<le> c \<and> c \<le> 57)"

text \<open>
  The code units that \<open>String.prototype.trim\<close>, \<open>Number\<close> and \<open>parseFloat\<close> skip:
  WhiteSpace and LineTerminator of ECMAScript (TAB, LF, VT, FF, CR, SP, NBSP, U+1680,
  U+2000..U+200A, U+2028, U+2029, U+202F, U+205F, U+3000, U+FEFF).
\<close>

definition isWhiteSpace :: "nat \<Rightarrow> bool" where
  "isWhiteSpace c =
     ((9 \<le> c \<and> c \<le> 13) \<or> c = 32 \<or> c = 160 \<or> c = 5760 \<or> (8192 \<le> c \<and> c \<le> 8202) \<or>
      c = 8232 \<or> c = 8233 \<or> c = 8239 \<or> c = 8287 \<or> c = 12288 \<or> c = 65279)"

definition trim :: "jsstring \<Rightarrow> jsstring" where
  "trim s = rev (dropWhile isWhiteSpace (rev (dropWhile isWhiteSpace s)))"

text \<open>
  \<open>toUpperCase\<close> on the ASCII letters. The Unicode mapping of the other code units is
  not modelled: they are left as they are.
\<close>

definition toUpperCase :: "jsstring \<Rightarrow> jsstring" where
  "toUpperCase s = map (\<lambda>c. if 97 \<le> c \<and> c \<le> 122 then c - 32 else c) s"

text \<open>\<open>s.slice(i, j)\<close> and \<open>s.slice(i)\<close> for the non-negative indices the source uses.\<close>

definition slice :: "jsstring \<Rightarrow> nat \<Rightarrow> nat \<Rightarrow> jsstring" where
  "slice s i j = take (j - i) (drop i s)"

definition slice_from :: "jsstring \<Rightarrow> nat \<Rightarrow> jsstring" where
  "slice_from s i = drop i s"

text \<open>\<open>s.replace(/\D/g, '')\<close>: every code unit that is not a digit is removed.\<close>

definition removeNonDigits :: "jsstring \<Rightarrow> jsstring" where
  "removeNonDigits s = filter isDigit s"

subsection \<open>Numbers\<close>

text \<open>
  A JavaScript number is \<open>NaN\<close>, an infinity or a finite value. Finite values are held
  as exact rationals: the rounding of a decimal text to the nearest double, with its
  overflow to an infinity and its underflow to zero, is not modelled.
\<close>

datatype jsnum = NaN | PosInf | NegInf | Fin rat

definition isNaN :: "jsnum \<Rightarrow> bool" where
  "isNaN x = (x = NaN)"

fun js_lt :: "jsnum \<Rightarrow> jsnum \<Rightarrow> bool" where
  "js_lt NaN _ = False"
| "js_lt _ NaN = False"
| "js_lt (Fin x) (Fin y) = (x < y)"
| "js_lt NegInf NegInf = False"
| "js_lt NegInf _ = True"
| "js_lt PosInf _ = False"
| "js_lt (Fin x) PosInf = True"
| "js_lt (Fin x) NegInf = False"

fun js_le :: "jsnum \<Rightarrow> jsnum \<Rightarrow> bool" where
  "js_le NaN _ = False"
| "js_le _ NaN = False"
| "js_le (Fin x) (Fin y) = (x \<le> y)"
| "js_le NegInf _ = True"
| "js_le PosInf PosInf = True"
| "js_le PosInf _ = False"
| "js_le (Fin x) PosInf = True"
| "js_le (Fin x) NegInf = False"

definition digitsVal :: "jsstring \<Rightarrow> nat" where
  "digitsVal ds = foldl (\<lambda>a c. 10 * a + (c - 48)) 0 ds"

definition pow10 :: "int \<Rightarrow> rat" where
  "pow10 e = (if 0 \<le> e then 10 ^ nat e else 1 / 10 ^ nat (- e))"

text \<open>An optional sign in front of a numeric text: whether it is \<open>-\<close>, and the rest.\<close>

definition strSign :: "jsstring \<Rightarrow> bool \<times> jsstring" where
  "strSign s =
     (case s of
        [] \<Rightarrow> (False, s)
      | c # r \<Rightarrow> if c = 45 then (True, r) else if c = 43 then (False, r) else (False, s))"

text \<open>ExponentPart at the front of a text: \<open>e\<close> or \<open>E\<close>, an optional sign, digits.\<close>

definition strExponent :: "jsstring \<Rightarrow> (int \<times> jsstring) option" where
  "strExponent s =
     (case s of
        [] \<Rightarrow> None
      | c # r \<Rightarrow>
          if c = 101 \<or> c = 69 then
            (let (neg, r1) = strSign r; ds = takeWhile isDigit r1
             in if ds = [] then None
                else Some (if neg then - int (digitsVal ds) else int (digitsVal ds),
                           dropWhile isDigit r1))
          else None)"

text \<open>
  The longest front part of a text that is a StrUnsignedDecimalLiteral other than
  \<open>Infinity\<close> (digits, \<open>digits.\<close>, \<open>digits.digits\<close>, \<open>.digits\<close>, each with an
  optional exponent): its value and what follows it.
\<close>

definition strUnsignedDecimal :: "jsstring \<Rightarrow> (rat \<times> jsstring) option" where
  "strUnsignedDecimal s =
     (let ip = takeWhile isDigit s;
          r1 = dropWhile isDigit s;
          dot = (r1 \<noteq> [] \<and> hd r1 = 46);
          fp = (if dot then takeWhile isDigit (tl r1) else []);
          r2 = (if dot then dropWhile isDigit (tl r1) else r1)
      in if ip = [] \<and> fp = [] then None
         else
           (let m = of_nat (digitsVal (ip @ fp)) / 10 ^ length fp
            in case strExponent r2 of
                 None \<Rightarrow> Some (m, r2)
               | Some (e, r3) \<Rightarrow> Some (m * pow10 e, r3)))"

text \<open>The digits of a hexadecimal, octal or binary integer literal.\<close>

definition radixDigit :: "nat \<Rightarrow> nat option" where
  "radixDigit c =
     (if 48 \<le> c \<and> c \<le> 57 then Some (c - 48)
      else if 97 \<le> c \<and> c \<le> 102 then Some (c - 87)
      else if 65 \<le> c \<and> c \<le> 70 then Some (c - 55)
      else None)"

fun radixVal :: "nat \<Rightarrow> nat \<Rightarrow> jsstring \<Rightarrow> nat option" where
  "radixVal b acc [] = Some acc"
| "radixVal b acc (c # cs) =
     (case radixDigit c of
        None \<Rightarrow> None
      | Some d \<Rightarrow> if d < b then radixVal b (b * acc + d) cs else None)"

definition strNonDecimal :: "jsstring \<Rightarrow> nat option" where
  "strNonDecimal s =
     (case s of
        z # x # ds \<Rightarrow>
          if z \<noteq> 48 \<or> ds = [] then None
          else if x = 120 \<or> x = 88 then radixVal 16 0 ds
          else if x = 111 \<or> x = 79 then radixVal 8 0 ds
          else if x = 98 \<or> x = 66 then radixVal 2 0 ds
          else None
      | _ \<Rightarrow> None)"

text \<open>
  \<open>Number(s)\<close> on a string (StringToNumber): surrounding white space is dropped, the
  empty text is 0, and the whole rest must be a signed decimal literal, a signed
  \<open>Infinity\<close> or an unsigned non-decimal integer literal; anything else is \<open>NaN\<close>.
\<close>

definition Number :: "jsstring \<Rightarrow> jsnum" where
  "Number s =
     (let t = trim s; (neg, body) = strSign t
      in if t = [] then Fin 0
         else if body = js ''Infinity'' then (if neg then NegInf else PosInf)
         else
           (case strUnsignedDecimal body of
              Some (v, []) \<Rightarrow> Fin (if neg then - v else v)
            | _ \<Rightarrow> (case strNonDecimal t of Some n \<Rightarrow> Fin (of_nat n) | None \<Rightarrow> NaN)))"

text \<open>
  \<open>parseFloat(s)\<close>: leading white space is dropped and the longest front part that is
  a signed decimal literal (or a signed \<open>Infinity\<close>) is read; \<open>NaN\<close> when there is none.
\<close>

definition parseFloat :: "jsstring \<Rightarrow> jsnum" where
  "parseFloat s =
     (let (neg, body) = strSign (dropWhile isWhiteSpace s)
      in if take 8 body = js ''Infinity'' then (if neg then NegInf else PosInf)
         else
           (case strUnsignedDecimal body of
              Some (v, _) \<Rightarrow> Fin (if neg then - v else v)
            | None \<Rightarrow> NaN))"


section \<open>The order form (ShippingForm.tsx)\<close>

subsection \<open>Props, configuration and state\<close>

datatype strategy_type = standard | custom

record PricingStrategy =
  type :: strategy_type
  basePrice :: int
  shippingCost :: int
  sizeThreshold :: rat
  surcharge :: int

text \<open>\<open>COUPON_CONFIG\<close> of \<open>config/coupons\<close>, a module that is not among the sources: taken as a parameter.\<close>

record coupon_config =
  isEnabled :: bool
  code :: jsstring
  discountAmount :: int
  eventName :: jsstring

text \<open>The record handed to \<open>onSubmit\<close>. An optional property is \<open>None\<close> when it is \<open>undefined\<close>.\<close>

record ShippingDetails =
  realName :: jsstring
  phone :: jsstring
  storeCode :: jsstring
  storeName :: jsstring
  socialId :: jsstring
  wristSize :: jsstring
  addPurificationBag :: bool
  preferredColors :: "jsstring list"
  couponCode :: "jsstring option"
  discountAmount :: "int option"
  totalPrice :: int

record applied_coupon =
  code :: jsstring
  amount :: int

text \<open>
  The texts shown under the coupon input (\<open>couponError\<close>): the empty string, the
  message of the disabled coupon system and the message of a code that does not match.
\<close>

datatype coupon_error = NoCouponError | CouponsDisabled | InvalidCoupon

text \<open>The validation messages, one per field.\<close>

datatype message =
  RealNameRequired | PhoneInvalid | StoreCodeInvalid | StoreNameRequired |
  SocialIdRequired | WristSizeInvalid | AgreementRequired

text \<open>
  The state variables of the component. \<open>errors\<close> is a JavaScript object with string
  keys: its entries are kept in insertion order, which is the order of \<open>Object.keys\<close>.
\<close>

record form_state =
  realName :: jsstring
  phone :: jsstring
  storeCode :: jsstring
  storeName :: jsstring
  socialId :: jsstring
  wristSize :: jsstring
  isCustomSize :: bool
  addPurificationBag :: bool
  preferredColors :: "jsstring list"
  couponInput :: jsstring
  appliedCoupon :: "applied_coupon option"
  couponError :: coupon_error
  agreed :: bool
  errors :: "(string \<times> message) list"
  shakingField :: "string option"

subsection \<open>Dynamic pricing\<close>

definition PURIFICATION_BAG_COST :: int where
  "PURIFICATION_BAG_COST = 200"

definition isStandard :: "PricingStrategy \<Rightarrow> bool" where
  "isStandard pricingStrategy = (type pricingStrategy = standard)"

definition isSurchargeApplicable :: "PricingStrategy \<Rightarrow> form_state \<Rightarrow> bool" where
  "isSurchargeApplicable pricingStrategy st =
     (if isStandard pricingStrategy then isCustomSize st
      else (wristSize st \<noteq> [] \<and> \<not> isNaN (Number (wristSize st)) \<and>
            js_le (Fin (sizeThreshold pricingStrategy)) (Number (wristSize st))))"

definition baseTotal :: "PricingStrategy \<Rightarrow> form_state \<Rightarrow> int" where
  "baseTotal pricingStrategy st =
     basePrice pricingStrategy + shippingCost pricingStrategy +
     (if isSurchargeApplicable pricingStrategy st then surcharge pricingStrategy else 0) +
     (if addPurificationBag st then PURIFICATION_BAG_COST else 0)"

definition discount :: "form_state \<Rightarrow> int" where
  "discount st = (case appliedCoupon st of Some c \<Rightarrow> amount c | None \<Rightarrow> 0)"

definition totalPrice :: "PricingStrategy \<Rightarrow> form_state \<Rightarrow> int" where
  "totalPrice pricingStrategy st = max 0 (baseTotal pricingStrategy st - discount st)"


subsection \<open>The draft in local storage\<close>

text \<open>
  The entry under \<open>STORAGE_KEY\<close> is modelled by the value that \<open>JSON.parse\<close> gives for
  its text; \<open>None\<close> is an entry that is absent or does not parse. An object keeps its
  keys in the order they were written.
\<close>

datatype json =
  JNull | JBool bool | JNum rat | JStr jsstring | JArr "json list" | JObj "(string \<times> json) list"

type_synonym draft = "(string \<times> json) list"

text \<open>What the handlers reach outside the component state.\<close>

datatype ref = nameRef | phoneRef | storeCodeRef | storeNameRef | socialRef | wristRef | agreementRef

datatype element = HTMLInputElement | HTMLDivElement

record world =
  storage :: "draft option"
  onSubmit_calls :: "ShippingDetails list"
  scrolled :: "ref list"
  focused :: "ref list"

text \<open>The object literal \<open>draft\<close> of the auto-save effect.\<close>

definition draft_of :: "form_state \<Rightarrow> draft" where
  "draft_of st =
     [(''realName'', JStr (realName st)),
      (''phone'', JStr (phone st)),
      (''storeCode'', JStr (storeCode st)),
      (''storeName'', JStr (storeName st)),
      (''socialId'', JStr (socialId st)),
      (''wristSize'', JStr (wristSize st)),
      (''addPurificationBag'', JBool (addPurificationBag st)),
      (''preferredColors'', JArr (map JStr (preferredColors st)))]"

definition clearError :: "string \<Rightarrow> form_state \<Rightarrow> form_state" where
  "clearError field st = st\<lparr>errors := filter (\<lambda>(k, m). k \<noteq> field) (errors st)\<rparr>"

definition clearErrorIf :: "bool \<Rightarrow> string \<Rightarrow> form_state \<Rightarrow> form_state" where
  "clearErrorIf b field st = (if b then clearError field st else st)"

text \<open>The auto-save effect: it runs after a render in which one of its nine dependencies changed.\<close>

definition autoSave :: "form_state \<times> world \<Rightarrow> form_state \<times> world" where
  "autoSave sw =
     (let st = fst sw; w = snd sw
      in ((clearErrorIf (agreed st) ''agreement'' \<circ>
           clearErrorIf (wristSize st \<noteq> []) ''wristSize'' \<circ>
           clearErrorIf (socialId st \<noteq> []) ''socialId'' \<circ>
           clearErrorIf (storeName st \<noteq> []) ''storeName'' \<circ>
           clearErrorIf (storeCode st \<noteq> []) ''storeCode'' \<circ>
           clearErrorIf (phone st \<noteq> []) ''phone'' \<circ>
           clearErrorIf (realName st \<noteq> []) ''realName'') st,
          w\<lparr>storage := Some (draft_of st)\<rparr>))"

subsubsection \<open>Restoring the state from the draft\<close>

fun truthy :: "json \<Rightarrow> bool" where
  "truthy JNull = False"
| "truthy (JBool b) = b"
| "truthy (JNum n) = (n \<noteq> 0)"
| "truthy (JStr s) = (s \<noteq> [])"
| "truthy (JArr xs) = True"
| "truthy (JObj kvs) = True"

definition initialDraft :: "draft option \<Rightarrow> draft" where
  "initialDraft saved = (case saved of Some d \<Rightarrow> d | None \<Rightarrow> [])"

text \<open>
  \<open>v || dflt\<close> as the first value of a state variable that holds a string, a boolean or
  a list of strings. The state variables are typed: a stored value that is truthy and
  of another type has no place in them, and the result is \<open>None\<close>.
\<close>

definition string_or :: "json option \<Rightarrow> jsstring \<Rightarrow> jsstring option" where
  "string_or v dflt =
     (case v of
        None \<Rightarrow> Some dflt
      | Some (JStr s) \<Rightarrow> Some (if s \<noteq> [] then s else dflt)
      | Some j \<Rightarrow> if truthy j then None else Some dflt)"

definition bool_or_false :: "json option \<Rightarrow> bool option" where
  "bool_or_false v =
     (case v of
        None \<Rightarrow> Some False
      | Some (JBool b) \<Rightarrow> Some b
      | Some j \<Rightarrow> if truthy j then None else Some False)"

fun strings_of :: "json list \<Rightarrow> jsstring list option" where
  "strings_of [] = Some []"
| "strings_of (JStr s # xs) = map_option ((#) s) (strings_of xs)"
| "strings_of (_ # xs) = None"

definition strings_or_empty :: "json option \<Rightarrow> jsstring list option" where
  "strings_or_empty v =
     (case v of
        None \<Rightarrow> Some []
      | Some (JArr xs) \<Rightarrow> strings_of xs
      | Some j \<Rightarrow> if truthy j then None else Some [])"

definition truthy_prop :: "draft \<Rightarrow> string \<Rightarrow> bool" where
  "truthy_prop d k = (case map_of d k of Some v \<Rightarrow> truthy v | None \<Rightarrow> False)"

text \<open>The state of the first render, from the entry found in storage.\<close>

definition initial_state :: "PricingStrategy \<Rightarrow> draft option \<Rightarrow> form_state option" where
  "initial_state pricingStrategy saved =
     (let d = initialDraft saved
      in Option.bind (string_or (map_of d ''realName'') []) (\<lambda>realName0.
         Option.bind (string_or (map_of d ''phone'') []) (\<lambda>phone0.
         Option.bind (string_or (map_of d ''storeCode'') []) (\<lambda>storeCode0.
         Option.bind (string_or (map_of d ''storeName'') []) (\<lambda>storeName0.
         Option.bind (string_or (map_of d ''socialId'') []) (\<lambda>socialId0.
         Option.bind (string_or (map_of d ''wristSize'')
                        (if isStandard pricingStrategy then js ''14'' else [])) (\<lambda>wristSize0.
         Option.bind (bool_or_false (map_of d ''addPurificationBag'')) (\<lambda>addPurificationBag0.
         Option.bind (strings_or_empty (map_of d ''preferredColors'')) (\<lambda>preferredColors0.
           Some \<lparr>realName = realName0, phone = phone0, storeCode = storeCode0,
                 storeName = storeName0, socialId = socialId0, wristSize = wristSize0,
                 isCustomSize =
                   (isStandard pricingStrategy \<and> truthy_prop d ''wristSize'' \<and>
                    map_of d ''wristSize'' \<noteq> Some (JStr (js ''14''))),
                 addPurificationBag = addPurificationBag0,
                 preferredColors = preferredColors0,
                 couponInput = [], appliedCoupon = None, couponError = NoCouponError,
                 agreed = False, errors = [], shakingField = None\<rparr>)))))))))"

subsection \<open>Applying a coupon\<close>

definition handleApplyCoupon :: "coupon_config \<Rightarrow> form_state \<Rightarrow> form_state" where
  "handleApplyCoupon COUPON_CONFIG st =
     (let st1 = st\<lparr>couponError := NoCouponError\<rparr>
      in if trim (couponInput st) = [] then st1
         else if \<not> isEnabled COUPON_CONFIG then st1\<lparr>couponError := CouponsDisabled\<rparr>
         else if toUpperCase (trim (couponInput st)) = toUpperCase (coupon_config.code COUPON_CONFIG)
         then st1\<lparr>appliedCoupon :=
                     Some \<lparr>code = coupon_config.code COUPON_CONFIG,
                           amount = coupon_config.discountAmount COUPON_CONFIG\<rparr>,
                   couponError := NoCouponError\<rparr>
         else st1\<lparr>couponError := InvalidCoupon, appliedCoupon := None\<rparr>)"

subsection \<open>Validation and submission\<close>

definition cleanPhone :: "form_state \<Rightarrow> jsstring" where
  "cleanPhone st = removeNonDigits (phone st)"

text \<open>\<open>/^09\d{8}$/.test(s)\<close> and \<open>/^\d{6}$/.test(s)\<close>.\<close>

definition test_09_d8 :: "jsstring \<Rightarrow> bool" where
  "test_09_d8 s = (length s = 10 \<and> take 2 s = js ''09'' \<and> list_all isDigit (drop 2 s))"

definition test_d6 :: "jsstring \<Rightarrow> bool" where
  "test_d6 s = (length s = 6 \<and> list_all isDigit s)"

definition finalPhone :: "form_state \<Rightarrow> jsstring" where
  "finalPhone st =
     (if \<not> test_09_d8 (cleanPhone st) then phone st
      else slice (cleanPhone st) 0 4 @ js ''-'' @ slice (cleanPhone st) 4 7 @ js ''-'' @
           slice_from (cleanPhone st) 7)"

definition wristSizeInvalid :: "form_state \<Rightarrow> bool" where
  "wristSizeInvalid st =
     (let sizeNum = parseFloat (wristSize st)
      in wristSize st = [] \<or> isNaN sizeNum \<or> js_le sizeNum (Fin 0) \<or> js_lt (Fin 30) sizeNum)"

text \<open>The object \<open>newErrors\<close> when the seven checks have run, in the order of the assignments.\<close>

definition newErrors :: "form_state \<Rightarrow> (string \<times> message) list" where
  "newErrors st =
     (if trim (realName st) = [] then [(''realName'', RealNameRequired)] else []) @
     (if \<not> test_09_d8 (cleanPhone st) then [(''phone'', PhoneInvalid)] else []) @
     (if \<not> test_d6 (storeCode st) then [(''storeCode'', StoreCodeInvalid)] else []) @
     (if trim (storeName st) = [] then [(''storeName'', StoreNameRequired)] else []) @
     (if trim (socialId st) = [] then [(''socialId'', SocialIdRequired)] else []) @
     (if wristSizeInvalid st then [(''wristSize'', WristSizeInvalid)] else []) @
     (if \<not> agreed st then [(''agreement'', AgreementRequired)] else [])"

definition Object_keys :: "(string \<times> 'a) list \<Rightarrow> string list" where
  "Object_keys obj = map fst obj"

definition refs :: "string \<Rightarrow> ref option" where
  "refs = map_of
     [(''realName'', nameRef), (''phone'', phoneRef), (''storeCode'', storeCodeRef),
      (''storeName'', storeNameRef), (''socialId'', socialRef), (''wristSize'', wristRef),
      (''agreement'', agreementRef)]"

text \<open>\<open>triggerShake\<close>: the vibration and the timer that ends the shake are left out.\<close>

definition triggerShake :: "string \<Rightarrow> form_state \<Rightarrow> form_state" where
  "triggerShake field st = st\<lparr>shakingField := Some field\<rparr>"

definition submittedDetails :: "PricingStrategy \<Rightarrow> form_state \<Rightarrow> ShippingDetails" where
  "submittedDetails pricingStrategy st =
     \<lparr>ShippingDetails.realName = trim (realName st),
      phone = finalPhone st,
      storeCode = storeCode st,
      storeName = trim (storeName st),
      socialId = trim (socialId st),
      wristSize = wristSize st,
      addPurificationBag = addPurificationBag st,
      preferredColors = preferredColors st,
      couponCode = (case appliedCoupon st of Some c \<Rightarrow> Some (code c) | None \<Rightarrow> None),
      discountAmount = (case appliedCoupon st of Some c \<Rightarrow> Some (amount c) | None \<Rightarrow> None),
      totalPrice = totalPrice pricingStrategy st\<rparr>"

text \<open>
  The submit handler. \<open>current\<close> gives the element a ref is attached to, if any. The
  handler reads the state of the render it was created in (\<open>st\<close>); the state it returns
  is the one its setters leave.
\<close>

definition validateAndSubmit ::
  "PricingStrategy \<Rightarrow> (ref \<Rightarrow> element option) \<Rightarrow> form_state \<times> world \<Rightarrow> form_state \<times> world" where
  "validateAndSubmit pricingStrategy current sw =
     (let st = fst sw; w = snd sw;
          st1 = (if \<not> test_09_d8 (cleanPhone st) then st else st\<lparr>phone := finalPhone st\<rparr>);
          st2 = st1\<lparr>errors := newErrors st\<rparr>
      in if length (Object_keys (newErrors st)) > 0 then
           (let firstField = hd (Object_keys (newErrors st))
            in (triggerShake firstField st2,
                (case refs firstField of
                   None \<Rightarrow> w
                 | Some targetRef \<Rightarrow>
                     (case current targetRef of
                        None \<Rightarrow> w
                      | Some el \<Rightarrow>
                          w\<lparr>scrolled := scrolled w @ [targetRef],
                            focused := (if el = HTMLInputElement then focused w @ [targetRef]
                                        else focused w)\<rparr>))))
         else
           (st2, w\<lparr>storage := None,
                   onSubmit_calls := onSubmit_calls w @ [submittedDetails pricingStrategy st]\<rparr>))"

text \<open>The elements the rendered form attaches its refs to.\<close>

definition rendered :: "ref \<Rightarrow> element option" where
  "rendered r = (if r = agreementRef then Some HTMLDivElement else Some HTMLInputElement)"

text \<open>
  The render that follows a handler. The auto-save effect lists nine state variables as
  its dependencies and runs again when one of them differs from its value in the render
  before (\<open>prev\<close>). The form stays mounted after a submission: its parent shows it
  until the record has its shipping details, and hands it \<open>isSubmitting\<close> meanwhile.
\<close>

definition effect_deps ::
  "form_state \<Rightarrow>
   jsstring \<times> jsstring \<times> jsstring \<times> jsstring \<times> jsstring \<times> jsstring \<times> bool \<times> jsstring list \<times> bool" where
  "effect_deps st =
     (realName st, phone st, storeCode st, storeName st, socialId st, wristSize st,
      addPurificationBag st, preferredColors st, agreed st)"

definition afterRender :: "form_state \<Rightarrow> form_state \<times> world \<Rightarrow> form_state \<times> world" where
  "afterRender prev sw = (if effect_deps (fst sw) = effect_deps prev then sw else autoSave sw)"

definition submit_and_render ::
  "PricingStrategy \<Rightarrow> (ref \<Rightarrow> element option) \<Rightarrow> form_state \<times> world \<Rightarrow> form_state \<times> world" where
  "submit_and_render pricingStrategy current sw =
     afterRender (fst sw) (validateAndSubmit pricingStrategy current sw)"

text \<open>The fixed order of the fields in which a failing field is looked for.\<close>

definition canonical_order :: "string list" where
  "canonical_order =
     [''realName'', ''phone'', ''storeCode'', ''storeName'', ''socialId'', ''wristSize'',
      ''agreement'']"

definition first_failing :: "form_state \<Rightarrow> string option" where
  "first_failing st = find (\<lambda>k. map_of (newErrors st) k \<noteq> None) canonical_order"


section \<open>Delivery to the spreadsheet (googleSheetService.ts)\<close>

subsection \<open>String helpers\<close>

text \<open>The text before and the text after the first occurrence of \<open>sep\<close> in a string.\<close>

fun breakOn :: "jsstring \<Rightarrow> jsstring \<Rightarrow> (jsstring \<times> jsstring) option" where
  "breakOn sep [] = (if sep = [] then Some ([], []) else None)"
| "breakOn sep (x # xs) =
     (if take (length sep) (x # xs) = sep then Some ([], drop (length sep) (x # xs))
      else (case breakOn sep xs of None \<Rightarrow> None | Some (a, b) \<Rightarrow> Some (x # a, b)))"

definition includes_str :: "jsstring \<Rightarrow> jsstring \<Rightarrow> bool" where
  "includes_str s sep = (breakOn sep s \<noteq> None)"

definition startsWith :: "jsstring \<Rightarrow> jsstring \<Rightarrow> bool" where
  "startsWith s p = (take (length p) s = p)"

text \<open>
  \<open>s.split(sep)[1]\<close> for a non-empty separator: the text between the first occurrence
  of the separator and the next one (or the end); \<open>None\<close> (\<open>undefined\<close>) when the
  separator does not occur.
\<close>

definition split_1 :: "jsstring \<Rightarrow> jsstring \<Rightarrow> jsstring option" where
  "split_1 s sep =
     (case breakOn sep s of
        None \<Rightarrow> None
      | Some (a, b) \<Rightarrow> Some (case breakOn sep b of None \<Rightarrow> b | Some (c, d) \<Rightarrow> c))"

subsection \<open>Records, payloads and the transport\<close>

text \<open>A thrown value: an \<open>Error\<close> object with its \<open>name\<close> and \<open>message\<close>.\<close>

record js_error =
  name :: jsstring
  message :: jsstring

text \<open>
  Of a customer record the model keeps the image reference. The 27 other entries of
  the payload are computed from the record without any effect and are the same in both
  transmissions; they are carried as one value \<open>payload_fields\<close>.
\<close>

record 'f CustomerRecord =
  generatedImageUrl :: "jsstring option"
  payload_fields :: 'f

record 'f payload =
  entries :: 'f
  imageBase64 :: jsstring

datatype send_status = sent | cors_blocked

text \<open>What the function writes to the console, in order.\<close>

datatype report =
    RequestSent
  | SendError js_error
  | CorsWarning
  | SyncResult send_status
  | SyncFailedRetrying js_error
  | TextOnlyRetryCompleted
  | BothAttemptsFailed js_error

text \<open>The calls of \<open>fetch\<close> made so far, with the body of each, and the console.\<close>

record 'f net =
  requests :: "'f payload list"
  reports :: "report list"

definition report :: "report \<Rightarrow> 'f net \<Rightarrow> 'f net" where
  "report r w = w\<lparr>reports := reports w @ [r]\<rparr>"

text \<open>
  The image entry of the payload. \<open>compressBase64Image\<close> belongs to \<open>imageUtils\<close>, which
  is not among the sources: it is a parameter that returns the compressed data URL or
  throws.
\<close>

definition cleanBase64 :: "(jsstring \<Rightarrow> js_error + jsstring) \<Rightarrow> 'f CustomerRecord \<Rightarrow> jsstring" where
  "cleanBase64 compressBase64Image record =
     (case generatedImageUrl record of
        None \<Rightarrow> []
      | Some url \<Rightarrow>
          if url = [] then []
          else if startsWith url (js ''http'') then []
          else
            (case compressBase64Image url of
               Inr compressedDataUrl \<Rightarrow>
                 if includes_str compressedDataUrl (js ''base64,'')
                 then (case split_1 compressedDataUrl (js ''base64,'') of Some t \<Rightarrow> t | None \<Rightarrow> [])
                 else []
             | Inl e \<Rightarrow>
                 if includes_str url (js ''base64,'')
                 then (case split_1 url (js ''base64,'') of Some t \<Rightarrow> t | None \<Rightarrow> [])
                 else []))"

definition build_payload :: "(jsstring \<Rightarrow> js_error + jsstring) \<Rightarrow> 'f CustomerRecord \<Rightarrow> 'f payload" where
  "build_payload compressBase64Image record =
     \<lparr>entries = payload_fields record, imageBase64 = cleanBase64 compressBase64Image record\<rparr>"

text \<open>
  \<open>sendRequest\<close>. The transport is a parameter: \<open>fetch i body\<close> is what the call of
  \<open>fetch\<close> that follows \<open>i\<close> earlier calls does with that body: \<open>None\<close> when it resolves
  (with an opaque response), \<open>Some e\<close> when it throws \<open>e\<close>. The result is \<open>Inl e\<close> when
  \<open>sendRequest\<close> throws \<open>e\<close>.
\<close>

definition sendRequest ::
  "(nat \<Rightarrow> 'f payload \<Rightarrow> js_error option) \<Rightarrow> 'f payload \<Rightarrow> 'f net \<Rightarrow> (js_error + send_status) \<times> 'f net" where
  "sendRequest fetch data w =
     (let w1 = w\<lparr>requests := requests w @ [data]\<rparr>
      in case fetch (length (requests w)) data of
           None \<Rightarrow> (Inr sent, report RequestSent w1)
         | Some error \<Rightarrow>
             if name error = js ''TypeError'' \<and> includes_str (message error) (js ''CORS'')
             then (Inr cors_blocked, report CorsWarning (report (SendError error) w1))
             else (Inl error, report (SendError error) w1))"

text \<open>\<open>syncToGoogleSheet\<close>: \<open>Inr ()\<close> when the promise resolves, \<open>Inl e\<close> when it rejects with \<open>e\<close>.\<close>

definition syncToGoogleSheet ::
  "(jsstring \<Rightarrow> js_error + jsstring) \<Rightarrow> (nat \<Rightarrow> 'f payload \<Rightarrow> js_error option) \<Rightarrow>
   'f CustomerRecord \<Rightarrow> jsstring \<Rightarrow> 'f net \<Rightarrow> (js_error + unit) \<times> 'f net" where
  "syncToGoogleSheet compressBase64Image fetch record scriptUrl w =
     (if scriptUrl = [] then (Inr (), w)
      else
        (let payload = build_payload compressBase64Image record
         in case sendRequest fetch payload w of
              (Inr result, w1) \<Rightarrow> (Inr (), report (SyncResult result) w1)
            | (Inl error, w1) \<Rightarrow>
                (let textOnlyPayload = payload\<lparr>imageBase64 := []\<rparr>
                 in case sendRequest fetch textOnlyPayload (report (SyncFailedRetrying error) w1) of
                      (Inr result, w2) \<Rightarrow> (Inr (), report TextOnlyRetryCompleted w2)
                    | (Inl retryError, w2) \<Rightarrow> (Inr (), report (BothAttemptsFailed retryError) w2))))"

text \<open>The console and the list of requests before the first call.\<close>

definition net0 :: "'f net" where
  "net0 = \<lparr>requests = [], reports = []\<rparr>"


section \<open>Concrete inputs\<close>

text \<open>The pricing policy that \<open>ProductCheckout\<close> hands to the form, for a product of the given price.\<close>

definition STANDARD_STRATEGY :: "int \<Rightarrow> PricingStrategy" where
  "STANDARD_STRATEGY price =
     \<lparr>type = standard, basePrice = price, shippingCost = 0, sizeThreshold = 14, surcharge = 200\<rparr>"

text \<open>A policy of the \<open>custom\<close> variant and a coupon configuration, switched on and off.\<close>

definition custom_strategy :: PricingStrategy where
  "custom_strategy =
     \<lparr>type = custom, basePrice = 1980, shippingCost = 60, sizeThreshold = 16, surcharge = 100\<rparr>"

definition coupon_on :: coupon_config where
  "coupon_on =
     \<lparr>isEnabled = True, code = js ''SAVE10'', discountAmount = 100, eventName = js ''Sale''\<rparr>"

definition coupon_off :: coupon_config where
  "coupon_off = coupon_on\<lparr>isEnabled := False\<rparr>"

text \<open>
  A form that passes every check (its phone number was edited after the dashes were
  set), and the same form with a short phone number and the agreement not ticked.
\<close>

definition filled_form :: form_state where
  "filled_form =
     \<lparr>realName = js ''Wang Mei'', phone = js ''0912345-678'', storeCode = js ''123456'',
      storeName = js ''Xintai'', socialId = js ''@crystal_aura'', wristSize = js ''15.5'',
      isCustomSize = True, addPurificationBag = True, preferredColors = [],
      couponInput = js ''save10'',
      appliedCoupon = Some \<lparr>code = js ''SAVE10'', amount = 100\<rparr>,
      couponError = NoCouponError, agreed = True, errors = [], shakingField = None\<rparr>"

definition unfinished_form :: form_state where
  "unfinished_form = filled_form\<lparr>phone := js ''12345'', agreed := False\<rparr>"

definition world0 :: world where
  "world0 = \<lparr>storage = Some (draft_of filled_form), onSubmit_calls = [], scrolled = [], focused = []\<rparr>"

text \<open>
  A record with image data, a compressor that succeeds, an endpoint, and three
  transports: one whose failure reads as a cross-origin rejection, one that is down, and
  one that fails once.
\<close>

definition image_record :: "unit CustomerRecord" where
  "image_record =
     \<lparr>generatedImageUrl = Some (js ''data:image/png;base64,AAAA''), payload_fields = ()\<rparr>"

definition compress_ok :: "jsstring \<Rightarrow> js_error + jsstring" where
  "compress_ok url = Inr (js ''data:image/jpeg;base64,BBBB'')"

definition script_url :: jsstring where
  "script_url = js ''https://script.google.com/macros/s/x/exec''"

definition cors_error :: js_error where
  "cors_error = \<lparr>name = js ''TypeError'', message = js ''blocked by CORS policy''\<rparr>"

definition fetch_error :: js_error where
  "fetch_error = \<lparr>name = js ''TypeError'', message = js ''Failed to fetch''\<rparr>"

definition fetch_cors :: "nat \<Rightarrow> unit payload \<Rightarrow> js_error option" where
  "fetch_cors i body = Some cors_error"

definition fetch_down :: "nat \<Rightarrow> unit payload \<Rightarrow> js_error option" where
  "fetch_down i body = Some fetch_error"

definition fetch_once_down :: "nat \<Rightarrow> unit payload \<Rightarrow> js_error option" where
  "fetch_once_down i body = (if i = 0 then Some fetch_error else None)"


section \<open>Evaluation of the concrete inputs\<close>

lemmas js_eval =
  js_def isDigit_def isWhiteSpace_def trim_def toUpperCase_def slice_def slice_from_def
  removeNonDigits_def isNaN_def digitsVal_def pow10_def strSign_def strExponent_def
  strUnsignedDecimal_def radixDigit_def strNonDecimal_def Number_def parseFloat_def

lemmas form_eval =
  filled_form_def unfinished_form_def world0_def STANDARD_STRATEGY_def custom_strategy_def
  coupon_on_def coupon_off_def cleanPhone_def test_09_d8_def test_d6_def finalPhone_def
  wristSizeInvalid_def newErrors_def

lemma js_not_empty: "js (c # cs) \<noteq> []"
  by (simp add: js_def)

lemma newErrors_filled_form: "newErrors filled_form = []"
  by (simp add: form_eval js_eval)

lemma newErrors_unfinished_form:
  "newErrors unfinished_form = [(''phone'', PhoneInvalid), (''agreement'', AgreementRequired)]"
  by (simp add: form_eval js_eval)

lemma Number_examples:
  "Number (js ''16.5'') = Fin (33 / 2)"
  "Number (js ''15.5'') = Fin (31 / 2)"
  "Number (js ''abc'') = NaN"
  "Number (js ''.'') = NaN"
  by (simp_all add: js_eval)

lemma cleanBase64_image_record: "cleanBase64 compress_ok image_record = js ''BBBB''"
  by (simp add: cleanBase64_def image_record_def compress_ok_def startsWith_def includes_str_def
      split_1_def js_def)

lemma cors_error_identified:
  "name cors_error = js ''TypeError'' \<and> includes_str (message cors_error) (js ''CORS'')"
  by (simp add: cors_error_def includes_str_def js_def)

lemma fetch_error_not_identified:
  "\<not> (name fetch_error = js ''TypeError'' \<and> includes_str (message fetch_error) (js ''CORS''))"
  by (simp add: fetch_error_def includes_str_def js_def)

section \<open>Pricing\<close>

text \<open>
  C1. For every pricing policy, every selection (custom-size toggle, wrist size text,
  purification bag) and every optional applied coupon, the total that is displayed, and
  that is put into the submitted record, is
  \<open>max(0, basePrice + shippingCost + (surcharge if it applies) + (200 if the bag is
  selected) - (the coupon's amount if a coupon is applied))\<close>; it is never negative.
\<close>

theorem totalPrice_formula:
  "totalPrice ps st =
     max 0 (basePrice ps + shippingCost ps +
            (if isSurchargeApplicable ps st then surcharge ps else 0) +
            (if addPurificationBag st then 200 else 0) -
            (case appliedCoupon st of Some c \<Rightarrow> amount c | None \<Rightarrow> 0)) \<and>
   ShippingDetails.totalPrice (submittedDetails ps st) = totalPrice ps st \<and>
   0 \<le> totalPrice ps st"
  by (simp add: totalPrice_def baseTotal_def discount_def PURIFICATION_BAG_COST_def
      submittedDetails_def)

theorem totalPrice_formula_witness:
  "totalPrice (STANDARD_STRATEGY 2480) filled_form = 2780 \<and>
   totalPrice (STANDARD_STRATEGY 2480)
     (filled_form\<lparr>appliedCoupon := Some \<lparr>code = js ''SAVE10'', amount = 5000\<rparr>\<rparr>) = 0"
  using totalPrice_formula [of "STANDARD_STRATEGY 2480" filled_form]
    totalPrice_formula [of "STANDARD_STRATEGY 2480"
      "filled_form\<lparr>appliedCoupon := Some \<lparr>code = js ''SAVE10'', amount = 5000\<rparr>\<rparr>"]
  by (simp add: isSurchargeApplicable_def isStandard_def STANDARD_STRATEGY_def filled_form_def)

lemma js_le_Fin_iff:
  "js_le (Fin t) x = (x = PosInf \<or> (\<exists>v. x = Fin v \<and> t \<le> v))"
  by (cases x) simp_all

text \<open>
  C2. Whether the surcharge applies is decided by the variant of the policy. Under a
  \<open>standard\<close> policy it applies exactly when the custom-size toggle is on, whatever the
  wrist-size text is. Under a \<open>custom\<close> policy it applies exactly when the wrist-size text
  is not empty and \<open>Number\<close> reads it as a number (not \<open>NaN\<close>) that is at least
  \<open>sizeThreshold\<close>; an empty text, or one that \<open>Number\<close> does not read as a number, never
  makes it apply.
\<close>

theorem surcharge_applicability:
  "(type ps = standard \<longrightarrow>
      isSurchargeApplicable ps (st\<lparr>wristSize := ws\<rparr>) = isCustomSize st) \<and>
   (type ps = custom \<longrightarrow>
      isSurchargeApplicable ps st =
        (wristSize st \<noteq> [] \<and>
         (Number (wristSize st) = PosInf \<or>
          (\<exists>v. Number (wristSize st) = Fin v \<and> sizeThreshold ps \<le> v)))) \<and>
   (type ps = custom \<and> (wristSize st = [] \<or> Number (wristSize st) = NaN) \<longrightarrow>
      \<not> isSurchargeApplicable ps st)"
  by (cases "type ps")
     (auto simp add: isSurchargeApplicable_def isStandard_def isNaN_def js_le_Fin_iff)

theorem surcharge_applicability_witness:
  "type (STANDARD_STRATEGY 2480) = standard \<and>
   isSurchargeApplicable (STANDARD_STRATEGY 2480) (filled_form\<lparr>wristSize := js ''abc''\<rparr>) \<and>
   type custom_strategy = custom \<and>
   isSurchargeApplicable custom_strategy (filled_form\<lparr>wristSize := js ''16.5''\<rparr>) \<and>
   \<not> isSurchargeApplicable custom_strategy filled_form \<and>
   \<not> isSurchargeApplicable custom_strategy (filled_form\<lparr>wristSize := []\<rparr>) \<and>
   \<not> isSurchargeApplicable custom_strategy (filled_form\<lparr>wristSize := js ''abc''\<rparr>)"
  using surcharge_applicability
      [where ps = "STANDARD_STRATEGY 2480" and st = filled_form and ws = "js ''abc''"]
    surcharge_applicability
      [where ps = custom_strategy and st = "filled_form\<lparr>wristSize := js ''16.5''\<rparr>"]
    surcharge_applicability [where ps = custom_strategy and st = filled_form]
    surcharge_applicability
      [where ps = custom_strategy and st = "filled_form\<lparr>wristSize := []\<rparr>"]
    surcharge_applicability
      [where ps = custom_strategy and st = "filled_form\<lparr>wristSize := js ''abc''\<rparr>"]
  by (simp add: Number_examples STANDARD_STRATEGY_def custom_strategy_def filled_form_def
      isSurchargeApplicable_def isStandard_def isNaN_def js_not_empty)


section \<open>Coupons\<close>

text \<open>
  C8. For every coupon input that is not blank: when the coupon system is switched off,
  applying it sets the \<open>CouponsDisabled\<close> message and applies no coupon; when the system
  is on and the trimmed input equals the configured code up to case, the configured
  coupon (its code and discount amount) becomes the applied coupon and the message is
  cleared; when it is on and the input does not match, the \<open>InvalidCoupon\<close> message is
  set.
\<close>

theorem apply_coupon_nonblank:
  assumes "trim (couponInput st) \<noteq> []"
  shows "(\<not> isEnabled cfg \<longrightarrow>
            couponError (handleApplyCoupon cfg st) = CouponsDisabled \<and>
            appliedCoupon (handleApplyCoupon cfg st) = appliedCoupon st) \<and>
         (isEnabled cfg \<and>
          toUpperCase (trim (couponInput st)) = toUpperCase (coupon_config.code cfg) \<longrightarrow>
            appliedCoupon (handleApplyCoupon cfg st) =
              Some \<lparr>code = coupon_config.code cfg, amount = coupon_config.discountAmount cfg\<rparr> \<and>
            couponError (handleApplyCoupon cfg st) = NoCouponError) \<and>
         (isEnabled cfg \<and>
          toUpperCase (trim (couponInput st)) \<noteq> toUpperCase (coupon_config.code cfg) \<longrightarrow>
            couponError (handleApplyCoupon cfg st) = InvalidCoupon)"
  using assms by (simp add: handleApplyCoupon_def)

lemma coupon_input_examples:
  "trim (js '' save10 '') = js ''save10''"
  "trim (js ''nope'') = js ''nope''"
  "trim (js ''   '') = []"
  "toUpperCase (js ''save10'') = js ''SAVE10''"
  "toUpperCase (js ''SAVE10'') = js ''SAVE10''"
  "toUpperCase (js ''nope'') = js ''NOPE''"
  by (simp_all add: js_eval)

lemma js_literals_differ: "js ''NOPE'' \<noteq> js ''SAVE10''"
  by (simp add: js_def)

theorem apply_coupon_nonblank_witness:
  "trim (js '' save10 '') \<noteq> [] \<and> trim (js ''nope'') \<noteq> [] \<and>
   couponError (handleApplyCoupon coupon_off
     (filled_form\<lparr>couponInput := js '' save10 '', appliedCoupon := None\<rparr>)) = CouponsDisabled \<and>
   appliedCoupon (handleApplyCoupon coupon_off
     (filled_form\<lparr>couponInput := js '' save10 '', appliedCoupon := None\<rparr>)) = None \<and>
   appliedCoupon (handleApplyCoupon coupon_on
     (filled_form\<lparr>couponInput := js '' save10 '', appliedCoupon := None\<rparr>)) =
     Some \<lparr>code = js ''SAVE10'', amount = 100\<rparr> \<and>
   couponError (handleApplyCoupon coupon_on
     (filled_form\<lparr>couponInput := js ''nope'', appliedCoupon := None\<rparr>)) = InvalidCoupon"
  using apply_coupon_nonblank
      [where cfg = coupon_off and
        st = "filled_form\<lparr>couponInput := js '' save10 '', appliedCoupon := None\<rparr>"]
    apply_coupon_nonblank
      [where cfg = coupon_on and
        st = "filled_form\<lparr>couponInput := js '' save10 '', appliedCoupon := None\<rparr>"]
    apply_coupon_nonblank
      [where cfg = coupon_on and
        st = "filled_form\<lparr>couponInput := js ''nope'', appliedCoupon := None\<rparr>"]
  by (simp add: coupon_input_examples js_not_empty js_literals_differ coupon_on_def
      coupon_off_def)

text \<open>
  C10. Applying a coupon when the input is empty or only white space does nothing but
  clear the coupon message: no coupon is applied and no message is set, not even the
  \<open>CouponsDisabled\<close> one when the coupon system is switched off, because the blank check
  comes before the check of the switch.
\<close>

theorem apply_coupon_blank:
  assumes "trim (couponInput st) = []"
  shows "handleApplyCoupon cfg st = st\<lparr>couponError := NoCouponError\<rparr>"
  using assms by (simp add: handleApplyCoupon_def)

theorem apply_coupon_blank_witness:
  "trim (js ''   '') = [] \<and>
   handleApplyCoupon coupon_off (filled_form\<lparr>couponInput := js ''   '', couponError := InvalidCoupon\<rparr>) =
     filled_form\<lparr>couponInput := js ''   '', couponError := NoCouponError\<rparr>"
  using apply_coupon_blank
      [where cfg = coupon_off and
        st = "filled_form\<lparr>couponInput := js ''   '', couponError := InvalidCoupon\<rparr>"]
  by (simp add: coupon_input_examples)


section \<open>Validation and submission\<close>

subsection \<open>The first key of the error object\<close>

lemma first_key_canonical:
  assumes "errs =
     (if b1 then [(''realName'', m1)] else []) @
     (if b2 then [(''phone'', m2)] else []) @
     (if b3 then [(''storeCode'', m3)] else []) @
     (if b4 then [(''storeName'', m4)] else []) @
     (if b5 then [(''socialId'', m5)] else []) @
     (if b6 then [(''wristSize'', m6)] else []) @
     (if b7 then [(''agreement'', m7)] else [])"
    and "errs \<noteq> []"
  shows "find (\<lambda>k. map_of errs k \<noteq> None) canonical_order = Some (hd (map fst errs))"
  using assms
  by (cases b1; cases b2; cases b3; cases b4; cases b5; cases b6; cases b7)
     (simp_all add: canonical_order_def)

lemma first_failing_hd:
  "newErrors st \<noteq> [] \<Longrightarrow> first_failing st = Some (hd (Object_keys (newErrors st)))"
  unfolding first_failing_def Object_keys_def
  by (rule first_key_canonical [OF newErrors_def])

lemma find_Some_in_set: "find P xs = Some x \<Longrightarrow> x \<in> set xs"
  by (induction xs) (auto split: if_splits)

lemma first_failing_refs:
  assumes "first_failing st = Some f"
  shows "\<exists>r. refs f = Some r"
proof -
  from assms have "f \<in> set canonical_order"
    unfolding first_failing_def by (rule find_Some_in_set)
  then show ?thesis
    by (auto simp add: canonical_order_def refs_def)
qed

text \<open>
  C3. Whenever submit finds at least one validation error, the one field that is
  signalled is the earliest failing field in the fixed order real name, phone, store
  code, store name, social handle, wrist size, agreement, for every combination of
  failing fields: that field is shaken, and the element that is scrolled to and, when it
  is an input, focused is the element of that same field.
\<close>

theorem first_failing_field_signalled:
  assumes "newErrors st \<noteq> []"
  shows "\<exists>f r. first_failing st = Some f \<and>
           (f, r) \<in> set [(''realName'', nameRef), (''phone'', phoneRef),
                          (''storeCode'', storeCodeRef), (''storeName'', storeNameRef),
                          (''socialId'', socialRef), (''wristSize'', wristRef),
                          (''agreement'', agreementRef)] \<and>
           shakingField (fst (validateAndSubmit ps current (st, w))) = Some f \<and>
           scrolled (snd (validateAndSubmit ps current (st, w))) =
             scrolled w @ (if current r = None then [] else [r]) \<and>
           focused (snd (validateAndSubmit ps current (st, w))) =
             focused w @ (if current r = Some HTMLInputElement then [r] else [])"
proof -
  let ?f = "hd (Object_keys (newErrors st))"
  have ff: "first_failing st = Some ?f"
    using assms by (rule first_failing_hd)
  then obtain r where r: "refs ?f = Some r"
    using first_failing_refs by blast
  from ff have "?f \<in> set canonical_order"
    unfolding first_failing_def by (rule find_Some_in_set)
  with r have tab: "(?f, r) \<in> set [(''realName'', nameRef), (''phone'', phoneRef),
      (''storeCode'', storeCodeRef), (''storeName'', storeNameRef),
      (''socialId'', socialRef), (''wristSize'', wristRef), (''agreement'', agreementRef)]"
    by (auto simp add: canonical_order_def refs_def)
  have "shakingField (fst (validateAndSubmit ps current (st, w))) = Some ?f"
    using assms by (simp add: validateAndSubmit_def Object_keys_def triggerShake_def Let_def)
  moreover have "scrolled (snd (validateAndSubmit ps current (st, w))) =
      scrolled w @ (if current r = None then [] else [r])"
    using assms r by (simp add: validateAndSubmit_def Object_keys_def Let_def split: option.split)
  moreover have "focused (snd (validateAndSubmit ps current (st, w))) =
      focused w @ (if current r = Some HTMLInputElement then [r] else [])"
    using assms r by (simp add: validateAndSubmit_def Object_keys_def Let_def split: option.split)
  ultimately show ?thesis
    using ff tab by blast
qed

lemma first_failing_unfinished_form: "first_failing unfinished_form = Some ''phone''"
  by (simp add: first_failing_def newErrors_unfinished_form canonical_order_def)

theorem first_failing_field_signalled_witness:
  "newErrors unfinished_form \<noteq> [] \<and>
   first_failing unfinished_form = Some ''phone'' \<and>
   shakingField (fst (validateAndSubmit (STANDARD_STRATEGY 2480) rendered (unfinished_form, world0))) =
     Some ''phone'' \<and>
   scrolled (snd (validateAndSubmit (STANDARD_STRATEGY 2480) rendered (unfinished_form, world0))) =
     [phoneRef] \<and>
   focused (snd (validateAndSubmit (STANDARD_STRATEGY 2480) rendered (unfinished_form, world0))) =
     [phoneRef]"
proof -
  have ne: "newErrors unfinished_form \<noteq> []"
    by (simp add: newErrors_unfinished_form)
  from first_failing_field_signalled [OF ne, of "STANDARD_STRATEGY 2480" rendered world0]
  obtain f r where
    f: "first_failing unfinished_form = Some f" and
    r: "(f, r) \<in> set [(''realName'', nameRef), (''phone'', phoneRef),
          (''storeCode'', storeCodeRef), (''storeName'', storeNameRef),
          (''socialId'', socialRef), (''wristSize'', wristRef),
          (''agreement'', agreementRef)]" and
    shake: "shakingField (fst (validateAndSubmit (STANDARD_STRATEGY 2480) rendered
              (unfinished_form, world0))) = Some f" and
    scroll: "scrolled (snd (validateAndSubmit (STANDARD_STRATEGY 2480) rendered
              (unfinished_form, world0))) =
             scrolled world0 @ (if rendered r = None then [] else [r])" and
    focus: "focused (snd (validateAndSubmit (STANDARD_STRATEGY 2480) rendered
              (unfinished_form, world0))) =
            focused world0 @ (if rendered r = Some HTMLInputElement then [r] else [])"
    by blast
  from f have f': "f = ''phone''"
    by (simp add: first_failing_unfinished_form)
  with r have r': "r = phoneRef"
    by simp
  from ne f shake scroll focus show ?thesis
    unfolding f' r' by (simp add: rendered_def world0_def)
qed

subsection \<open>The phone number of the submitted record\<close>

lemma filter_digits_id: "list_all isDigit s \<Longrightarrow> filter isDigit s = s"
  by (induction s) simp_all

lemma test_09_d8_digits:
  assumes "test_09_d8 s"
  shows "list_all isDigit s \<and> length s = 10"
proof -
  have "s = take 2 s @ drop 2 s" by simp
  moreover have "list_all isDigit (take 2 s)"
    using assms by (simp add: test_09_d8_def js_def isDigit_def)
  moreover have "list_all isDigit (drop 2 s)"
    using assms by (simp add: test_09_d8_def)
  ultimately have "list_all isDigit s"
    by (metis list_all_append)
  then show ?thesis using assms by (simp add: test_09_d8_def)
qed

lemma newErrors_empty_iff:
  "newErrors st = [] \<longleftrightarrow>
     trim (realName st) \<noteq> [] \<and> test_09_d8 (cleanPhone st) \<and> test_d6 (storeCode st) \<and>
     trim (storeName st) \<noteq> [] \<and> trim (socialId st) \<noteq> [] \<and> \<not> wristSizeInvalid st \<and> agreed st"
  by (simp add: newErrors_def)

lemma finalPhone_shape:
  assumes "test_09_d8 (cleanPhone st)"
  shows "length (finalPhone st) = 12 \<and> finalPhone st ! 4 = 45 \<and> finalPhone st ! 8 = 45 \<and>
         removeNonDigits (finalPhone st) = removeNonDigits (phone st)"
proof -
  let ?c = "cleanPhone st"
  from assms have d: "list_all isDigit ?c" and l: "length ?c = 10"
    using test_09_d8_digits by blast+
  have fp: "finalPhone st = take 4 ?c @ [45] @ take 3 (drop 4 ?c) @ [45] @ drop 7 ?c"
    using assms by (simp add: finalPhone_def slice_def slice_from_def js_def)
  have "filter isDigit (finalPhone st) =
          filter isDigit (take 4 ?c) @ filter isDigit (take 3 (drop 4 ?c)) @ filter isDigit (drop 7 ?c)"
    unfolding fp by (simp add: isDigit_def)
  also have "\<dots> = filter isDigit (take 4 ?c @ take 3 (drop 4 ?c) @ drop 7 ?c)"
    by simp
  also have "take 4 ?c @ take 3 (drop 4 ?c) @ drop 7 ?c = ?c"
  proof -
    have h: "drop 7 ?c = drop 3 (drop 4 ?c)" by simp
    have "take 3 (drop 4 ?c) @ drop 7 ?c = drop 4 ?c"
      unfolding h by (rule append_take_drop_id)
    then show ?thesis by simp
  qed
  also have "filter isDigit ?c = ?c"
    using d by (rule filter_digits_id)
  finally have "removeNonDigits (finalPhone st) = removeNonDigits (phone st)"
    by (simp add: removeNonDigits_def cleanPhone_def)
  moreover have "length (finalPhone st) = 12"
    unfolding fp using l by simp
  moreover have "finalPhone st ! 4 = 45"
    unfolding fp using l by (simp add: nth_append)
  moreover have "finalPhone st ! 8 = 45"
    unfolding fp using l by (simp add: nth_append)
  ultimately show ?thesis by blast
qed

text \<open>
  What the submit handler itself leaves when all validation rules pass: the draft is
  removed from storage and \<open>onSubmit\<close> is called once, with a record whose \<open>totalPrice\<close>
  is the total computed for that state, whose phone is the dashed form (4 digits,
  3 digits, 3 digits) of the digits of the phone field, and which carries the code and
  the amount of the applied coupon (both absent when no coupon is applied).
\<close>

lemma valid_submit_handler:
  assumes "newErrors st = []"
  shows "\<exists>d. snd (validateAndSubmit ps current (st, w)) =
               w\<lparr>storage := None, onSubmit_calls := onSubmit_calls w @ [d]\<rparr> \<and>
             ShippingDetails.totalPrice d = totalPrice ps st \<and>
             ShippingDetails.phone d =
               take 4 (removeNonDigits (phone st)) @ js ''-'' @
               take 3 (drop 4 (removeNonDigits (phone st))) @ js ''-'' @
               drop 7 (removeNonDigits (phone st)) \<and>
             length (ShippingDetails.phone d) = 12 \<and>
             removeNonDigits (ShippingDetails.phone d) = removeNonDigits (phone st) \<and>
             couponCode d = map_option code (appliedCoupon st) \<and>
             ShippingDetails.discountAmount d = map_option amount (appliedCoupon st)"
proof -
  from assms have ok: "test_09_d8 (cleanPhone st)"
    by (simp add: newErrors_empty_iff)
  let ?d = "submittedDetails ps st"
  have "snd (validateAndSubmit ps current (st, w)) =
          w\<lparr>storage := None, onSubmit_calls := onSubmit_calls w @ [?d]\<rparr>"
    using assms by (simp add: validateAndSubmit_def Object_keys_def Let_def)
  moreover have "ShippingDetails.totalPrice ?d = totalPrice ps st"
    by (simp add: submittedDetails_def)
  moreover have "ShippingDetails.phone ?d = finalPhone st"
    by (simp add: submittedDetails_def)
  moreover have "finalPhone st =
      take 4 (removeNonDigits (phone st)) @ js ''-'' @
      take 3 (drop 4 (removeNonDigits (phone st))) @ js ''-'' @
      drop 7 (removeNonDigits (phone st))"
    using ok by (simp add: finalPhone_def slice_def slice_from_def cleanPhone_def)
  moreover have "couponCode ?d = map_option code (appliedCoupon st)"
    by (simp add: submittedDetails_def split: option.split)
  moreover have "ShippingDetails.discountAmount ?d = map_option amount (appliedCoupon st)"
    by (simp add: submittedDetails_def split: option.split)
  ultimately show ?thesis
    using finalPhone_shape [OF ok] by (intro exI [of _ ?d]) simp
qed

lemma valid_submit_state:
  assumes "newErrors st = []"
  shows "validateAndSubmit ps current (st, w) =
           (st\<lparr>phone := finalPhone st, errors := []\<rparr>,
            w\<lparr>storage := None, onSubmit_calls := onSubmit_calls w @ [submittedDetails ps st]\<rparr>)"
proof -
  from assms have "test_09_d8 (cleanPhone st)"
    by (simp add: newErrors_empty_iff)
  with assms show ?thesis
    by (simp add: validateAndSubmit_def Object_keys_def Let_def)
qed

text \<open>
  When the phone field already holds the dashed form, no dependency of the auto-save
  effect changes and the draft stays removed after the render.
\<close>

lemma valid_submit_draft_stays_removed:
  assumes "newErrors st = []" and "phone st = finalPhone st"
  shows "storage (snd (submit_and_render ps current (st, w))) = None"
  using assms
  by (simp add: submit_and_render_def afterRender_def effect_deps_def valid_submit_state)

lemma finalPhone_filled_form: "finalPhone filled_form = js ''0912-345-678''"
  by (simp add: form_eval js_eval)

lemma phone_filled_form_not_final: "phone filled_form \<noteq> finalPhone filled_form"
  unfolding finalPhone_filled_form by (simp add: filled_form_def js_def)

text \<open>
  C4 says that for every state of the fields in which all validation rules pass, submit
  clears the persisted draft and calls \<open>onSubmit\<close> with a record that has the computed
  total, the dashed phone and the applied coupon. The record is as stated, and the
  handler removes the draft; but when the phone field does not hold the dashed form
  yet, the handler's \<open>setPhone\<close> changes a dependency of the auto-save effect, and the
  render that follows the submission writes the draft back: after a valid submission
  the entry is in storage again.
\<close>

theorem valid_submit_draft_written_back:
  assumes "newErrors st = []" and "phone st \<noteq> finalPhone st"
  shows "storage (snd (validateAndSubmit ps current (st, w))) = None \<and>
         onSubmit_calls (snd (submit_and_render ps current (st, w))) =
           onSubmit_calls w @ [submittedDetails ps st] \<and>
         storage (snd (submit_and_render ps current (st, w))) =
           Some (draft_of (st\<lparr>phone := finalPhone st\<rparr>))"
  using assms
  by (simp add: submit_and_render_def afterRender_def effect_deps_def valid_submit_state
      autoSave_def draft_of_def)

theorem valid_submit_draft_written_back_witness:
  "newErrors filled_form = [] \<and>
   phone filled_form \<noteq> finalPhone filled_form \<and>
   storage (snd (validateAndSubmit (STANDARD_STRATEGY 2480) rendered (filled_form, world0))) = None \<and>
   map ShippingDetails.phone
     (onSubmit_calls (snd (submit_and_render (STANDARD_STRATEGY 2480) rendered (filled_form, world0)))) =
     [js ''0912-345-678''] \<and>
   storage (snd (submit_and_render (STANDARD_STRATEGY 2480) rendered (filled_form, world0))) =
     Some (draft_of (filled_form\<lparr>phone := js ''0912-345-678''\<rparr>))"
  using valid_submit_draft_written_back
      [OF newErrors_filled_form phone_filled_form_not_final,
       of "STANDARD_STRATEGY 2480" rendered world0]
    newErrors_filled_form phone_filled_form_not_final
  by (simp add: finalPhone_filled_form submittedDetails_def world0_def)

text \<open>
  C5. For every state of the fields in which at least one validation rule fails, the
  submit handler records the whole error mapping and stops: the draft stays in storage
  and \<open>onSubmit\<close> is not called, so no record is produced. The only other operation on
  the storage entry, the auto-save, writes a draft and never removes it.
\<close>

theorem invalid_submit_aborts:
  assumes "newErrors st \<noteq> []"
  shows "errors (fst (validateAndSubmit ps current (st, w))) = newErrors st \<and>
         storage (snd (validateAndSubmit ps current (st, w))) = storage w \<and>
         onSubmit_calls (snd (validateAndSubmit ps current (st, w))) = onSubmit_calls w \<and>
         storage (snd (autoSave (st, w))) \<noteq> None"
  using assms
  by (simp add: validateAndSubmit_def Object_keys_def triggerShake_def autoSave_def Let_def
      split: option.split)

theorem invalid_submit_aborts_witness:
  "newErrors unfinished_form \<noteq> [] \<and>
   errors (fst (validateAndSubmit (STANDARD_STRATEGY 2480) rendered (unfinished_form, world0))) =
     [(''phone'', PhoneInvalid), (''agreement'', AgreementRequired)] \<and>
   storage (snd (validateAndSubmit (STANDARD_STRATEGY 2480) rendered (unfinished_form, world0))) =
     Some (draft_of filled_form) \<and>
   onSubmit_calls (snd (validateAndSubmit (STANDARD_STRATEGY 2480) rendered (unfinished_form, world0))) = []"
proof -
  have ne: "newErrors unfinished_form \<noteq> []"
    by (simp add: newErrors_unfinished_form)
  from invalid_submit_aborts [OF ne, of "STANDARD_STRATEGY 2480" rendered world0] ne
  show ?thesis
    by (simp add: newErrors_unfinished_form world0_def)
qed


section \<open>The persisted draft\<close>

lemma strings_of_map_JStr: "strings_of (map JStr xs) = Some xs"
  by (induction xs) simp_all

lemma initial_state_fresh:
  assumes "initial_state ps saved = Some st'"
  shows "\<not> agreed st' \<and> appliedCoupon st' = None \<and> couponInput st' = []"
  using assms
  by (auto simp add: initial_state_def Let_def split: Option.bind_splits)

lemma initial_state_of_draft:
  "\<exists>st'. initial_state ps (Some (draft_of st)) = Some st' \<and>
         realName st' = realName st \<and> phone st' = phone st \<and> storeCode st' = storeCode st \<and>
         storeName st' = storeName st \<and> socialId st' = socialId st \<and>
         addPurificationBag st' = addPurificationBag st \<and>
         preferredColors st' = preferredColors st"
  by (simp add: initial_state_def initialDraft_def draft_of_def string_or_def bool_or_false_def
      strings_or_empty_def strings_of_map_JStr)

text \<open>
  C9. The draft that is written to storage has exactly the eight entries \<open>realName\<close>,
  \<open>phone\<close>, \<open>storeCode\<close>, \<open>storeName\<close>, \<open>socialId\<close>, \<open>wristSize\<close>, \<open>addPurificationBag\<close>
  and \<open>preferredColors\<close>. The agreement flag, the coupon input and the applied coupon are
  not written, so every form that is restored from a draft starts with the agreement
  not ticked and no coupon applied, whatever they were when the draft was saved.
\<close>

theorem draft_fields:
  "map fst (draft_of st) =
     [''realName'', ''phone'', ''storeCode'', ''storeName'', ''socialId'', ''wristSize'',
      ''addPurificationBag'', ''preferredColors''] \<and>
   draft_of (st\<lparr>agreed := a, couponInput := ci, appliedCoupon := ac\<rparr>) = draft_of st \<and>
   storage (snd (autoSave (st, w))) = Some (draft_of st) \<and>
   (\<forall>saved st'. initial_state ps saved = Some st' \<longrightarrow>
      \<not> agreed st' \<and> appliedCoupon st' = None \<and> couponInput st' = []) \<and>
   (\<exists>st'. initial_state ps (storage (snd (autoSave (st, w)))) = Some st' \<and>
      \<not> agreed st' \<and> appliedCoupon st' = None \<and> couponInput st' = [])"
proof -
  have keys: "map fst (draft_of st) =
     [''realName'', ''phone'', ''storeCode'', ''storeName'', ''socialId'', ''wristSize'',
      ''addPurificationBag'', ''preferredColors'']"
    by (simp add: draft_of_def)
  have frame: "draft_of (st\<lparr>agreed := a, couponInput := ci, appliedCoupon := ac\<rparr>) = draft_of st"
    by (simp add: draft_of_def)
  have saved: "storage (snd (autoSave (st, w))) = Some (draft_of st)"
    by (simp add: autoSave_def)
  obtain st' where st': "initial_state ps (Some (draft_of st)) = Some st'"
    using initial_state_of_draft by blast
  from keys frame saved st' initial_state_fresh show ?thesis
    by (metis (no_types, lifting))
qed

theorem draft_fields_witness:
  "agreed filled_form \<and> appliedCoupon filled_form \<noteq> None \<and> couponInput filled_form \<noteq> [] \<and>
   map_option agreed
     (initial_state (STANDARD_STRATEGY 2480) (storage (snd (autoSave (filled_form, world0))))) =
     Some False \<and>
   map_option appliedCoupon
     (initial_state (STANDARD_STRATEGY 2480) (storage (snd (autoSave (filled_form, world0))))) =
     Some None \<and>
   map_option couponInput
     (initial_state (STANDARD_STRATEGY 2480) (storage (snd (autoSave (filled_form, world0))))) =
     Some []"
proof -
  from draft_fields [where st = filled_form and w = world0 and ps = "STANDARD_STRATEGY 2480"]
  obtain st' where
    "initial_state (STANDARD_STRATEGY 2480) (storage (snd (autoSave (filled_form, world0)))) =
       Some st'"
    and "\<not> agreed st'" and "appliedCoupon st' = None" and "couponInput st' = []"
    by blast
  then show ?thesis
    by (simp add: filled_form_def js_not_empty)
qed

section \<open>Delivery\<close>

lemma build_payload_image_record:
  "build_payload compress_ok image_record = \<lparr>entries = (), imageBase64 = js ''BBBB''\<rparr>"
proof -
  have "payload_fields image_record = ()"
    by simp
  then show ?thesis
    by (simp add: build_payload_def cleanBase64_image_record)
qed

lemma script_url_not_empty: "script_url \<noteq> []"
  by (simp add: script_url_def js_not_empty)

text \<open>
  C6, as the specification states it: for a record with image data, a transmission that
  throws an error identified as a cross-origin rejection is followed by exactly one
  retry with \<open>imageBase64\<close> emptied. The code does not retry in that case:
  \<open>sendRequest\<close> turns such an error into the result \<open>cors_blocked\<close>, so the only call
  of \<open>fetch\<close> is the first one.
\<close>

theorem cors_error_no_retry:
  "cleanBase64 compress_ok image_record = js ''BBBB'' \<and>
   fetch_cors 0 (build_payload compress_ok image_record) = Some cors_error \<and>
   name cors_error = js ''TypeError'' \<and> includes_str (message cors_error) (js ''CORS'') \<and>
   requests (snd (syncToGoogleSheet compress_ok fetch_cors image_record script_url net0)) =
     [\<lparr>entries = (), imageBase64 = js ''BBBB''\<rparr>] \<and>
   length (requests (snd (syncToGoogleSheet compress_ok fetch_cors image_record script_url net0))) = 1"
  using cors_error_identified
  by (simp add: syncToGoogleSheet_def sendRequest_def report_def net0_def fetch_cors_def
      build_payload_image_record cleanBase64_image_record script_url_not_empty)

text \<open>
  C6, amended. When the first transmission throws an error identified as a cross-origin
  rejection (its name is \<open>TypeError\<close> and its message contains \<open>CORS\<close>),
  \<open>syncToGoogleSheet\<close> returns normally, reports the outcome \<open>cors_blocked\<close> and makes no
  retry. When the first transmission throws any other error, it returns normally and
  makes exactly one retry, with \<open>imageBase64\<close> emptied.
\<close>

theorem transport_error_outcomes:
  assumes "scriptUrl \<noteq> []"
    and "fetch (length (requests w)) (build_payload compressBase64Image cr) = Some e"
  shows "(name e = js ''TypeError'' \<and> includes_str (message e) (js ''CORS'') \<longrightarrow>
            syncToGoogleSheet compressBase64Image fetch cr scriptUrl w =
              (Inr (),
               w\<lparr>requests := requests w @ [build_payload compressBase64Image cr],
                 reports := reports w @ [SendError e, CorsWarning, SyncResult cors_blocked]\<rparr>)) \<and>
         (\<not> (name e = js ''TypeError'' \<and> includes_str (message e) (js ''CORS'')) \<longrightarrow>
            fst (syncToGoogleSheet compressBase64Image fetch cr scriptUrl w) = Inr () \<and>
            requests (snd (syncToGoogleSheet compressBase64Image fetch cr scriptUrl w)) =
              requests w @
              [build_payload compressBase64Image cr,
               (build_payload compressBase64Image cr)\<lparr>imageBase64 := []\<rparr>])"
  using assms
  by (auto simp add: syncToGoogleSheet_def sendRequest_def report_def Let_def
      split: option.split prod.split sum.split)

theorem transport_error_outcomes_witness:
  "script_url \<noteq> [] \<and>
   fetch_cors (length (requests (net0 :: unit net))) (build_payload compress_ok image_record) =
     Some cors_error \<and>
   fetch_once_down (length (requests (net0 :: unit net))) (build_payload compress_ok image_record) =
     Some fetch_error \<and>
   syncToGoogleSheet compress_ok fetch_cors image_record script_url net0 =
     (Inr (),
      \<lparr>requests = [\<lparr>entries = (), imageBase64 = js ''BBBB''\<rparr>],
       reports = [SendError cors_error, CorsWarning, SyncResult cors_blocked]\<rparr>) \<and>
   requests (snd (syncToGoogleSheet compress_ok fetch_once_down image_record script_url net0)) =
     [\<lparr>entries = (), imageBase64 = js ''BBBB''\<rparr>, \<lparr>entries = (), imageBase64 = []\<rparr>]"
proof -
  have c: "fetch_cors (length (requests (net0 :: unit net))) (build_payload compress_ok image_record) =
      Some cors_error"
    by (simp add: fetch_cors_def)
  have d: "fetch_once_down (length (requests (net0 :: unit net)))
      (build_payload compress_ok image_record) = Some fetch_error"
    by (simp add: fetch_once_down_def net0_def)
  from transport_error_outcomes
      [where scriptUrl = script_url and fetch = fetch_cors and w = "net0 :: unit net"
         and compressBase64Image = compress_ok and cr = image_record and e = cors_error]
    transport_error_outcomes
      [where scriptUrl = script_url and fetch = fetch_once_down and w = "net0 :: unit net"
         and compressBase64Image = compress_ok and cr = image_record and e = fetch_error]
    cors_error_identified fetch_error_not_identified c d script_url_not_empty
  show ?thesis
    by (simp add: build_payload_image_record net0_def)
qed

text \<open>
  C7. \<open>syncToGoogleSheet\<close> never passes an error on to its caller: for every record and
  every script URL it returns normally, also when the first transmission and the retry
  without the image both throw; then the failure of both attempts is reported on the
  console instead.
\<close>

theorem sync_never_throws:
  "fst (syncToGoogleSheet compressBase64Image fetch cr scriptUrl w) = Inr () \<and>
   (scriptUrl \<noteq> [] \<and>
    sendRequest fetch (build_payload compressBase64Image cr) w = (Inl e1, w1) \<and>
    sendRequest fetch ((build_payload compressBase64Image cr)\<lparr>imageBase64 := []\<rparr>)
      (report (SyncFailedRetrying e1) w1) = (Inl e2, w2) \<longrightarrow>
    syncToGoogleSheet compressBase64Image fetch cr scriptUrl w =
      (Inr (), report (BothAttemptsFailed e2) w2))"
  by (simp add: syncToGoogleSheet_def Let_def split: prod.split sum.split)

lemma sendRequest_fetch_down:
  "sendRequest fetch_down data w =
     (Inl fetch_error, report (SendError fetch_error) (w\<lparr>requests := requests w @ [data]\<rparr>))"
  by (simp add: sendRequest_def fetch_down_def Let_def fetch_error_def includes_str_def js_def)

theorem sync_never_throws_witness:
  "script_url \<noteq> [] \<and>
   syncToGoogleSheet compress_ok fetch_down image_record script_url net0 =
     (Inr (),
      \<lparr>requests = [\<lparr>entries = (), imageBase64 = js ''BBBB''\<rparr>, \<lparr>entries = (), imageBase64 = []\<rparr>],
       reports = [SendError fetch_error, SyncFailedRetrying fetch_error, SendError fetch_error,
                  BothAttemptsFailed fetch_error]\<rparr>)"
  using sync_never_throws
      [where fetch = fetch_down and compressBase64Image = compress_ok and cr = image_record
         and scriptUrl = script_url and w = net0 and ?e1.0 = fetch_error and ?e2.0 = fetch_error
         and ?w1.0 = "report (SendError fetch_error)
               (net0\<lparr>requests := requests net0 @ [build_payload compress_ok image_record]\<rparr>)"
         and ?w2.0 = "report (SendError fetch_error)
               ((report (SyncFailedRetrying fetch_error) (report (SendError fetch_error)
                  (net0\<lparr>requests := requests net0 @ [build_payload compress_ok image_record]\<rparr>)))
                \<lparr>requests := requests (report (SyncFailedRetrying fetch_error)
                   (report (SendError fetch_error)
                     (net0\<lparr>requests := requests net0 @ [build_payload compress_ok image_record]\<rparr>))) @
                   [(build_payload compress_ok image_record)\<lparr>imageBase64 := []\<rparr>]\<rparr>)"]
    script_url_not_empty
  by (simp add: sendRequest_fetch_down build_payload_image_record report_def net0_def)

end
